theory Spec2Isabelle
  imports Main
begin

section \<open>Event kinds, errors and documents\<close>

text \<open>
  Modelled from the spec: the members of \<open>ChatEventEnum\<close>. The file
  \<open>constants.js\<close> that declares them is not among the sources; the sources use the
  member names below and section 6 of the specification lists eleven distinct kinds.
\<close>

datatype ChatEventEnum =
    CONNECTED_EVENT
  | DISCONNECT_EVENT
  | JOIN_CHAT_EVENT
  | LEAVE_CHAT_EVENT
  | UPDATE_GROUP_NAME_EVENT
  | MESSAGE_RECEIVED_EVENT
  | NEW_CHAT_EVENT
  | SOCKET_ERROR_EVENT
  | STOP_TYPING_EVENT
  | TYPING_EVENT
  | MESSAGE_DELETE_EVENT

text \<open>
  What a \<open>throw\<close> carries. \<open>ApiError status message\<close> is \<open>new apiError(status, message)\<close>
  (the class itself, \<open>utils/apiError.js\<close>, is not among the sources; its second
  argument is read as the error's \<open>message\<close>). \<open>JsonWebTokenError\<close> is whatever
  \<open>jwt.verify\<close> throws, with its \<open>message\<close> when it has one. \<open>ReferenceError\<close>,
  \<open>TypeError\<close> and \<open>FsError\<close> are the runtime's own errors, named by the identifier,
  the expression or the path that caused them. \<open>BSONError\<close> is what
  \<open>new mongoose.Types.ObjectId\<close> throws for a string that is no ObjectId, and
  \<open>CastError\<close> what a query by id fails with for such a string; both carry the string.
\<close>

datatype thrown =
    ApiError nat string
  | JsonWebTokenError "string option"
  | ReferenceError string
  | TypeError string
  | FsError string
  | BSONError string
  | CastError string

fun error_message :: "thrown \<Rightarrow> string option" where
  "error_message (ApiError status msg) = Some msg"
| "error_message (JsonWebTokenError m) = m"
| "error_message (ReferenceError ident) = Some (ident @ '' is not defined'')"
| "error_message (TypeError what) = Some what"
| "error_message (FsError path) = Some (''ENOENT: no such file or directory, unlink '' @ path)"
| "error_message (BSONError given) = Some (''input must be a 24 character hex string: '' @ given)"
| "error_message (CastError given) = Some (''Cast to ObjectId failed for value '' @ given)"

text \<open>
  JavaScript truthiness of a value that is a string or \<open>undefined\<close>: \<open>undefined\<close> and
  the empty string are falsy.
\<close>

fun truthy :: "string option \<Rightarrow> bool" where
  "truthy None = False"
| "truthy (Some s) = (s \<noteq> [])"

text \<open>
  A user document: its \<open>_id\<close> (in the string form \<open>_id.toString()\<close> gives) and its
  other fields by name. \<open>select\<close> with the argument \<open>"-password -refreshToken"\<close> is
  the projection that drops the named fields.
\<close>

record user_doc =
  uid :: string
  doc_fields :: "string \<rightharpoonup> string"

definition select_excluding :: "string list \<Rightarrow> user_doc \<Rightarrow> user_doc" where
  "select_excluding names u = u\<lparr>doc_fields := (\<lambda>k. if k \<in> set names then None else doc_fields u k)\<rparr>"

section \<open>The room registry\<close>

text \<open>
  Modelled from the spec: the Room Membership Registry of section 4.2, which the sources
  reach only through \<open>socket.join\<close>, \<open>socket.leave\<close> and \<open>in(room)\<close> of the transport
  library. \<open>join\<close> adds the handle to the room's member set, creating the set if absent;
  \<open>leave\<close> removes the handle and prunes the entry when the resulting set is empty;
  \<open>membersOf\<close> is the current member set.
\<close>

type_synonym conn = nat
type_synonym room = string
type_synonym registry = "room \<rightharpoonup> conn set"

definition membersOf :: "registry \<Rightarrow> room \<Rightarrow> conn set" where
  "membersOf reg r = (case reg r of None \<Rightarrow> {} | Some s \<Rightarrow> s)"

definition join :: "room \<Rightarrow> conn \<Rightarrow> registry \<Rightarrow> registry" where
  "join r c reg = reg(r \<mapsto> insert c (membersOf reg r))"

definition leave :: "room \<Rightarrow> conn \<Rightarrow> registry \<Rightarrow> registry" where
  "leave r c reg =
     (case reg r of
        None \<Rightarrow> reg
      | Some s \<Rightarrow> (if s - {c} = {} then reg(r := None) else reg(r \<mapsto> s - {c})))"

text \<open>
  Modelled from the spec: the cleanup of section 4.5, which the transport library
  performs when a connection closes. All room memberships held by the connection are
  removed from the registry as one step, emptied entries being pruned as \<open>leave\<close>
  prunes them.
\<close>

definition leave_all :: "conn \<Rightarrow> registry \<Rightarrow> registry" where
  "leave_all c reg =
     (\<lambda>r. case reg r of
            None \<Rightarrow> None
          | Some s \<Rightarrow> (if s - {c} = {} then None else Some (s - {c})))"

section \<open>Messages, chats and payloads\<close>

record attachment =
  url :: string
  localPath :: string

record message =
  message_id :: string
  sender :: string
  content :: string
  chat :: string
  attachments :: "attachment list"

record chat_doc =
  participants :: "string list"
  lastMessage :: "string option"

datatype payload = NoPayload | Text string | Msg message

section \<open>Sockets and the server\<close>

text \<open>
  An emission records the call that produced it (\<open>socket.emit\<close>, \<open>socket.in(room).emit\<close>
  or \<open>io.in(room).emit\<close>) and the connections it is delivered to, taken from the
  registry at the time of the call.
\<close>

datatype target = ToSocket conn | ToRoomExceptSender room conn | ToRoom room

record emission =
  target :: target
  recipients :: "conn set"
  event :: ChatEventEnum
  payload :: payload

record server =
  rooms :: registry
  sent :: "emission list"

record handshake =
  headers_cookie :: "string option"
  auth_token :: "string option"

datatype listener = JoinChat | ParticipantTyping | ParticipantStoppedTyping | OnDisconnect

record socket =
  sid :: conn
  handshake :: handshake
  user :: "user_doc option"
  listeners :: "(ChatEventEnum \<times> listener) list"
  connected :: bool

text \<open>The socket as the \<open>connection\<close> event hands it to the handler.\<close>

definition new_socket :: "conn \<Rightarrow> handshake \<Rightarrow> socket" where
  "new_socket c hs = \<lparr>sid = c, handshake = hs, user = None, listeners = [], connected = True\<rparr>"

definition socket_emit :: "socket \<Rightarrow> ChatEventEnum \<Rightarrow> payload \<Rightarrow> server \<Rightarrow> server" where
  "socket_emit sock ev pl srv =
     srv\<lparr>sent := sent srv @
       [\<lparr>target = ToSocket (sid sock), recipients = {sid sock}, event = ev, payload = pl\<rparr>]\<rparr>"

definition socket_in_emit ::
  "socket \<Rightarrow> room \<Rightarrow> ChatEventEnum \<Rightarrow> payload \<Rightarrow> server \<Rightarrow> server" where
  "socket_in_emit sock r ev pl srv =
     srv\<lparr>sent := sent srv @
       [\<lparr>target = ToRoomExceptSender r (sid sock),
         recipients = membersOf (rooms srv) r - {sid sock}, event = ev, payload = pl\<rparr>]\<rparr>"

definition socket_on :: "ChatEventEnum \<Rightarrow> listener \<Rightarrow> socket \<Rightarrow> socket" where
  "socket_on ev l sock = sock\<lparr>listeners := listeners sock @ [(ev, l)]\<rparr>"

definition socket_join :: "socket \<Rightarrow> room \<Rightarrow> server \<Rightarrow> server" where
  "socket_join sock r srv = srv\<lparr>rooms := join r (sid sock) (rooms srv)\<rparr>"

text \<open>
  What the sources hand to \<open>socket.leave\<close>: a string, or the ObjectId \<open>socket.user._id\<close>
  itself (line 75, written here by its string form). The rooms of the registry are the
  strings that were joined, and an ObjectId is none of them: a leave by ObjectId finds
  no entry and changes nothing.
\<close>

datatype room_arg = RoomString room | RoomObjectId string

fun socket_leave :: "socket \<Rightarrow> room_arg \<Rightarrow> server \<Rightarrow> server" where
  "socket_leave sock (RoomString r) srv = srv\<lparr>rooms := leave r (sid sock) (rooms srv)\<rparr>"
| "socket_leave sock (RoomObjectId oid) srv = srv"

text \<open>\<open>emitSocketEvent\<close>: \<open>req.app.get("io").in(roomId).emit(event, payload)\<close>.\<close>

definition emitSocketEvent :: "room \<Rightarrow> ChatEventEnum \<Rightarrow> payload \<Rightarrow> server \<Rightarrow> server" where
  "emitSocketEvent roomId ev pl srv =
     srv\<lparr>sent := sent srv @
       [\<lparr>target = ToRoom roomId, recipients = membersOf (rooms srv) roomId,
         event = ev, payload = pl\<rparr>]\<rparr>"

subsection \<open>The listeners of \<open>socket/index.js\<close>\<close>

text \<open>
  \<open>mountParticipantStoppedTypingEvent\<close> registers, as written, a second listener on
  \<open>TYPING_EVENT\<close> that emits \<open>TYPING_EVENT\<close>. The disconnect listener calls
  \<open>socket.leave(socket.user._id)\<close>, with the ObjectId and not the string
  \<open>user._id.toString()\<close> that line 63 joined.
\<close>

definition mountJoinChatEvent :: "socket \<Rightarrow> socket" where
  "mountJoinChatEvent sock = socket_on JOIN_CHAT_EVENT JoinChat sock"

definition mountParticipantTypingEvent :: "socket \<Rightarrow> socket" where
  "mountParticipantTypingEvent sock = socket_on TYPING_EVENT ParticipantTyping sock"

definition mountParticipantStoppedTypingEvent :: "socket \<Rightarrow> socket" where
  "mountParticipantStoppedTypingEvent sock = socket_on TYPING_EVENT ParticipantStoppedTyping sock"

fun run_listener :: "listener \<Rightarrow> string \<Rightarrow> socket \<Rightarrow> server \<Rightarrow> server" where
  "run_listener JoinChat chatId sock srv = socket_join sock chatId srv"
| "run_listener ParticipantTyping chatId sock srv =
     socket_in_emit sock chatId TYPING_EVENT (Text chatId) srv"
| "run_listener ParticipantStoppedTyping chatId sock srv =
     socket_in_emit sock chatId TYPING_EVENT (Text chatId) srv"
| "run_listener OnDisconnect arg sock srv =
     (case user sock of
        Some u \<Rightarrow> socket_leave sock (RoomObjectId (uid u)) srv
      | None \<Rightarrow> srv)"

text \<open>
  An inbound event runs every listener the socket registered for its kind, in the
  order of registration.
\<close>

fun dispatch ::
  "(ChatEventEnum \<times> listener) list \<Rightarrow> ChatEventEnum \<Rightarrow> string \<Rightarrow> socket \<Rightarrow> server \<Rightarrow> server" where
  "dispatch [] ev arg sock srv = srv"
| "dispatch ((e, l) # ls) ev arg sock srv =
     dispatch ls ev arg sock (if e = ev then run_listener l arg sock srv else srv)"

definition receive :: "ChatEventEnum \<Rightarrow> string \<Rightarrow> socket \<Rightarrow> server \<Rightarrow> server" where
  "receive ev arg sock srv = dispatch (listeners sock) ev arg sock srv"

text \<open>
  Modelled from the spec: the transition from \<open>Active\<close> to \<open>Closed\<close> of section 4.5.
  When a connection closes, the transport removes it from every room in one step, the
  connection is closed, and the \<open>disconnect\<close> event then reaches the listeners the
  sources registered.
\<close>

definition disconnect :: "string \<Rightarrow> socket \<Rightarrow> server \<Rightarrow> socket \<times> server" where
  "disconnect reason sock srv =
     (sock\<lparr>connected := False\<rparr>,
      receive DISCONNECT_EVENT reason (sock\<lparr>connected := False\<rparr>)
        (srv\<lparr>rooms := leave_all (sid sock) (rooms srv)\<rparr>))"

subsection \<open>The handshake of \<open>initializeSocketIO\<close>\<close>

text \<open>
  The collaborators the handler calls: \<open>cookie.parse\<close>, \<open>jwt.verify\<close> (\<open>Inl\<close> the
  message of what it throws), \<open>process.env.ACCESS_TOKEN_SECRET\<close> and \<open>User.findById\<close>.
\<close>

record decoded =
  tok_id :: string

record collaborators =
  cookie_parse :: "string \<Rightarrow> (string \<rightharpoonup> string)"
  jwt_verify :: "string \<Rightarrow> string \<Rightarrow> string option + decoded"
  ACCESS_TOKEN_SECRET :: string
  User_findById :: "string \<Rightarrow> user_doc option"

definition cookie_header :: "handshake \<Rightarrow> string" where
  "cookie_header hs = (case headers_cookie hs of None \<Rightarrow> [] | Some h \<Rightarrow> h)"

definition get_token :: "collaborators \<Rightarrow> handshake \<Rightarrow> string option" where
  "get_token deps hs =
     (let cookies = cookie_parse deps (cookie_header hs);
          token = cookies ''accessToken''
      in if \<not> truthy token then auth_token hs else token)"

definition authenticate :: "collaborators \<Rightarrow> handshake \<Rightarrow> thrown + user_doc" where
  "authenticate deps hs =
     (case get_token deps hs of
        None \<Rightarrow> Inl (ApiError 401 ''Unauthorized handshake. Token missing.'')
      | Some token \<Rightarrow>
          if token = [] then Inl (ApiError 401 ''Unauthorized handshake. Token missing.'')
          else
            (case jwt_verify deps token (ACCESS_TOKEN_SECRET deps) of
               Inl m \<Rightarrow> Inl (JsonWebTokenError m)
             | Inr decodedToken \<Rightarrow>
                 (case User_findById deps (tok_id decodedToken) of
                    None \<Rightarrow> Inl (ApiError 401 ''Unauthenticated handshake. User not found.'')
                  | Some u \<Rightarrow> Inr (select_excluding [''password'', ''refreshToken''] u))))"

text \<open>\<open>error?.message || "Something went wrong while connecting to the socket."\<close>\<close>

definition socket_error_payload :: "thrown \<Rightarrow> string" where
  "socket_error_payload error =
     (case error_message error of
        None \<Rightarrow> ''Something went wrong while connecting to the socket.''
      | Some m \<Rightarrow>
          if m = [] then ''Something went wrong while connecting to the socket.'' else m)"

definition on_connection :: "collaborators \<Rightarrow> socket \<Rightarrow> server \<Rightarrow> socket \<times> server" where
  "on_connection deps sock srv =
     (case authenticate deps (handshake sock) of
        Inr u \<Rightarrow>
          (let sock1 = sock\<lparr>user := Some u\<rparr>;
               srv1 = socket_join sock1 (uid u) srv;
               srv2 = socket_emit sock1 CONNECTED_EVENT NoPayload srv1;
               sock2 = mountJoinChatEvent sock1;
               sock3 = mountParticipantTypingEvent sock2;
               sock4 = mountParticipantStoppedTypingEvent sock3;
               sock5 = socket_on DISCONNECT_EVENT OnDisconnect sock4
           in (sock5, srv2))
      | Inl error \<Rightarrow>
          (sock,
           socket_emit sock SOCKET_ERROR_EVENT (Text (socket_error_payload error)) srv))"

subsection \<open>The Session Authenticator as the specification words it\<close>

text \<open>
  Section 4.1: prefer the cookie-carried token, fall back to the explicitly supplied
  token field; fail with \<open>Unauthorized\<close> when no token is present, with
  \<open>InvalidToken\<close> when verification fails, with \<open>IdentityNotFound\<close> when no matching
  identity exists; on success resolve the identity without its sensitive fields.
  \<open>failure_kind\<close> reads the kind off what the handler's \<open>try\<close> block throws.
\<close>

datatype auth_failure = Unauthorized | InvalidToken | IdentityNotFound

definition authenticate_spec :: "collaborators \<Rightarrow> handshake \<Rightarrow> auth_failure + user_doc" where
  "authenticate_spec deps hs =
     (let cookie_token = cookie_parse deps (cookie_header hs) ''accessToken'';
          presented = (if truthy cookie_token then cookie_token else auth_token hs)
      in case presented of
           None \<Rightarrow> Inl Unauthorized
         | Some t \<Rightarrow>
             if t = [] then Inl Unauthorized
             else
               (case jwt_verify deps t (ACCESS_TOKEN_SECRET deps) of
                  Inl m \<Rightarrow> Inl InvalidToken
                | Inr d \<Rightarrow>
                    (case User_findById deps (tok_id d) of
                       None \<Rightarrow> Inl IdentityNotFound
                     | Some u \<Rightarrow>
                         Inr (u\<lparr>doc_fields :=
                                (doc_fields u)(''password'' := None, ''refreshToken'' := None)\<rparr>))))"

fun failure_kind :: "thrown \<Rightarrow> auth_failure option" where
  "failure_kind (ApiError status msg) =
     (if status = 401 \<and> msg = ''Unauthorized handshake. Token missing.'' then Some Unauthorized
      else if status = 401 \<and> msg = ''Unauthenticated handshake. User not found.''
        then Some IdentityNotFound
      else None)"
| "failure_kind (JsonWebTokenError m) = Some InvalidToken"
| "failure_kind (ReferenceError ident) = None"
| "failure_kind (TypeError what) = None"
| "failure_kind (FsError path) = None"
| "failure_kind (BSONError given) = None"
| "failure_kind (CastError given) = None"

section \<open>The message controller\<close>

text \<open>
  The data the controller works on: the chat and message collections (messages in the
  order of their creation), the files on disk, and the socket server. Ids are strings;
  \<open>valid_id\<close> below says which of them are ObjectIds.
\<close>

record world =
  chats :: "string \<rightharpoonup> chat_doc"
  messages :: "message list"
  files :: "string set"
  io :: server

text \<open>
  The identifiers a module can resolve, what \<open>getStaticFilePath\<close> computes when it
  is one of them, and the strings \<open>new mongoose.Types.ObjectId\<close> and the cast of a
  query by id accept (the library is not among the sources).
  \<open>message_controller_imports\<close> lists lines 1 to 12 of
  \<open>message.controller.js\<close>: the module uses \<open>ChatEventEnum\<close>, \<open>getStaticFilePath\<close> and
  \<open>ApiResponse\<close> and imports none of them (it imports \<open>getStatisFilePath\<close> and
  \<open>apiResponse\<close>), so each use throws a \<open>ReferenceError\<close> when it is evaluated.
\<close>

record module_env =
  bound :: "string list"
  static_path :: "string \<Rightarrow> string"
  valid_id :: "string \<Rightarrow> bool"

definition message_controller_imports :: "string list" where
  "message_controller_imports =
     [''mongoose'', ''Chat'', ''Message'', ''emitSocketEvent'', ''apiError'', ''apiResponse'',
      ''asyncHandler'', ''getLocalPath'', ''getStatisFilePath'', ''removeLocalFile'']"

definition getLocalPath :: "string \<Rightarrow> string" where
  "getLocalPath fileName = ''public/images/'' @ fileName"


record response =
  resp_status :: nat
  resp_data :: payload
  resp_message :: string

record send_request =
  send_user :: string
  send_chatId :: string
  send_content :: "string option"
  send_files :: "string list"


text \<open>
  \<open>chat.participants.forEach\<close> of \<open>sendMessage\<close> and \<open>deleteMessage\<close>: the sender is
  skipped; for every other participant the arguments of \<open>emitSocketEvent\<close> are
  evaluated, \<open>ChatEventEnum\<close> among them, and the event goes to the room named by the
  participant's id. A throw ends the loop.
\<close>

fun forEach_participant ::
  "module_env \<Rightarrow> string \<Rightarrow> ChatEventEnum \<Rightarrow> payload \<Rightarrow> string list \<Rightarrow> server
     \<Rightarrow> thrown option \<times> server" where
  "forEach_participant env me ev pl [] srv = (None, srv)"
| "forEach_participant env me ev pl (p # ps) srv =
     (if p = me then forEach_participant env me ev pl ps srv
      else if ''ChatEventEnum'' \<notin> set (bound env) then (Some (ReferenceError ''ChatEventEnum''), srv)
      else forEach_participant env me ev pl ps (emitSocketEvent p ev pl srv))"

fun messageFiles :: "module_env \<Rightarrow> string list \<Rightarrow> thrown + attachment list" where
  "messageFiles env [] = Inr []"
| "messageFiles env (f # fs) =
     (if ''getStaticFilePath'' \<notin> set (bound env) then Inl (ReferenceError ''getStaticFilePath'')
      else
        (case messageFiles env fs of
           Inl e \<Rightarrow> Inl e
         | Inr rest \<Rightarrow> Inr (\<lparr>url = static_path env f, localPath = getLocalPath f\<rparr> # rest)))"

text \<open>
  \<open>sendMessage\<close>. \<open>new_id\<close> is the id \<open>Message.create\<close> gives the new document. The
  payload is the created message (the aggregation that replaces its sender by the
  sender's public fields is not modelled). \<open>Chat.findById(chatId)\<close> fails with a
  \<open>CastError\<close> when \<open>chatId\<close> is no ObjectId; \<open>req.user._id\<close> is an ObjectId already.
\<close>

definition sendMessage ::
  "module_env \<Rightarrow> string \<Rightarrow> send_request \<Rightarrow> world \<Rightarrow> (thrown + response) \<times> world" where
  "sendMessage env new_id req w =
     (if \<not> truthy (send_content req) \<and> send_files req = []
      then (Inl (ApiError 400 ''Message content or attachment is required''), w)
      else if \<not> valid_id env (send_chatId req)
      then (Inl (CastError (send_chatId req)), w)
      else
        (case chats w (send_chatId req) of
           None \<Rightarrow> (Inl (ApiError 404 ''Chat does not exist''), w)
         | Some selectedChat \<Rightarrow>
             (case messageFiles env (send_files req) of
                Inl e \<Rightarrow> (Inl e, w)
              | Inr atts \<Rightarrow>
                  (let msg = \<lparr>message_id = new_id, sender = send_user req,
                              content = (case send_content req of None \<Rightarrow> [] | Some c \<Rightarrow> c),
                              chat = send_chatId req, attachments = atts\<rparr>;
                       w1 = w\<lparr>messages := messages w @ [msg]\<rparr>;
                       updated = selectedChat\<lparr>lastMessage := Some new_id\<rparr>;
                       w2 = w1\<lparr>chats := (chats w1)(send_chatId req \<mapsto> updated)\<rparr>
                   in
                     (case forEach_participant env (send_user req) MESSAGE_RECEIVED_EVENT
                             (Msg msg) (participants updated) (io w2) of
                        (Some e, srv) \<Rightarrow> (Inl e, w2\<lparr>io := srv\<rparr>)
                      | (None, srv) \<Rightarrow>
                          if ''ApiResponse'' \<notin> set (bound env)
                          then (Inl (ReferenceError ''ApiResponse''), w2\<lparr>io := srv\<rparr>)
                          else (Inr \<lparr>resp_status = 201, resp_data = Msg msg,
                                     resp_message = ''Message saved successfully''\<rparr>,
                                w2\<lparr>io := srv\<rparr>))))))"







section \<open>Sample data for the worked instances\<close>

definition alice :: user_doc where
  "alice = \<lparr>uid = ''u1'',
     doc_fields = [''username'' \<mapsto> ''alice'', ''password'' \<mapsto> ''hash1'', ''refreshToken'' \<mapsto> ''r1'']\<rparr>"

definition bob :: user_doc where
  "bob = \<lparr>uid = ''u2'',
     doc_fields = [''username'' \<mapsto> ''bob'', ''password'' \<mapsto> ''hash2'', ''refreshToken'' \<mapsto> ''r2'']\<rparr>"

definition carol :: user_doc where
  "carol = \<lparr>uid = ''u3'',
     doc_fields = [''username'' \<mapsto> ''carol'', ''password'' \<mapsto> ''hash3'', ''refreshToken'' \<mapsto> ''r3'']\<rparr>"

definition sample_deps :: collaborators where
  "sample_deps =
     \<lparr>cookie_parse = (\<lambda>h. if h = ''accessToken=tokA'' then [''accessToken'' \<mapsto> ''tokA'']
                           else Map.empty),
      jwt_verify = (\<lambda>t s.
         if s \<noteq> ''secret'' then Inl (Some ''secret or public key must be provided'')
         else if t = ''tokA'' then Inr \<lparr>tok_id = ''u1''\<rparr>
         else if t = ''tokB'' then Inr \<lparr>tok_id = ''u2''\<rparr>
         else if t = ''tokC'' then Inr \<lparr>tok_id = ''u3''\<rparr>
         else if t = ''tokGone'' then Inr \<lparr>tok_id = ''u9''\<rparr>
         else if t = ''tokSilent'' then Inl None
         else Inl (Some ''invalid signature'')),
      ACCESS_TOKEN_SECRET = ''secret'',
      User_findById = [''u1'' \<mapsto> alice, ''u2'' \<mapsto> bob, ''u3'' \<mapsto> carol]\<rparr>"

definition no_credentials :: handshake where
  "no_credentials = \<lparr>headers_cookie = None, auth_token = None\<rparr>"

definition with_token :: "string \<Rightarrow> handshake" where
  "with_token t = \<lparr>headers_cookie = None, auth_token = Some t\<rparr>"

definition both_credentials :: handshake where
  "both_credentials = \<lparr>headers_cookie = Some ''accessToken=tokA'', auth_token = Some ''tokB''\<rparr>"

definition empty_server :: server where
  "empty_server = \<lparr>rooms = Map.empty, sent = []\<rparr>"

text \<open>
  A running example: connection 1 authenticates as \<open>u1\<close>, connection 2 as \<open>u2\<close>,
  and both send \<open>join-chat\<close> for \<open>chat42\<close>.
\<close>

definition conn_a :: socket where
  "conn_a = fst (on_connection sample_deps (new_socket 1 (with_token ''tokA'')) empty_server)"

definition conn_b :: socket where
  "conn_b = fst (on_connection sample_deps (new_socket 2 (with_token ''tokB'')) empty_server)"

definition chat42_server :: server where
  "chat42_server =
     receive JOIN_CHAT_EVENT ''chat42'' conn_b
       (receive JOIN_CHAT_EVENT ''chat42'' conn_a
          (snd (on_connection sample_deps (new_socket 2 (with_token ''tokB''))
             (snd (on_connection sample_deps (new_socket 1 (with_token ''tokA'')) empty_server)))))"

text \<open>
  Sample data for the controller. The ids are strings of 24 hexadecimal characters,
  which the library accepts as ObjectIds in every version. Users \<open>id_u1\<close> and \<open>id_u2\<close>
  are the participants of chat \<open>id_chat\<close>, \<open>id_u3\<close> is not; connection 1 is in the
  identity room of \<open>id_u1\<close> and connection 2 in that of \<open>id_u2\<close>.
\<close>

definition is_hex24 :: "string \<Rightarrow> bool" where
  "is_hex24 s = (length s = 24 \<and> list_all (\<lambda>ch. ch \<in> set ''0123456789abcdefABCDEF'') s)"

definition id_u1 :: string where "id_u1 = ''64b7f0c2a1d3e4f5a6b7c801''"
definition id_u2 :: string where "id_u2 = ''64b7f0c2a1d3e4f5a6b7c802''"
definition id_u3 :: string where "id_u3 = ''64b7f0c2a1d3e4f5a6b7c803''"
definition id_chat :: string where "id_chat = ''64b7f0c2a1d3e4f5a6b7c842''"
definition id_m1 :: string where "id_m1 = ''64b7f0c2a1d3e4f5a6b7c8a1''"
definition id_m2 :: string where "id_m2 = ''64b7f0c2a1d3e4f5a6b7c8a2''"

definition sample_message :: message where
  "sample_message = \<lparr>message_id = id_m1, sender = id_u1, content = ''hello'',
     chat = id_chat, attachments = [\<lparr>url = ''http://host/images/a.png'',
                                      localPath = ''public/images/a.png''\<rparr>]\<rparr>"

definition sample_world :: world where
  "sample_world =
     \<lparr>chats = [id_chat \<mapsto> \<lparr>participants = [id_u1, id_u2], lastMessage = Some id_m1\<rparr>],
      messages = [sample_message],
      files = {''public/images/a.png''},
      io = \<lparr>rooms = [id_u1 \<mapsto> {1}, id_u2 \<mapsto> {2}], sent = []\<rparr>\<rparr>"

definition hi_request :: send_request where
  "hi_request = \<lparr>send_user = id_u1, send_chatId = id_chat, send_content = Some ''hi'',
     send_files = []\<rparr>"




text \<open>The controller module as written.\<close>

definition as_written :: module_env where
  "as_written = \<lparr>bound = message_controller_imports, static_path = (\<lambda>f. ''/images/'' @ f),
     valid_id = is_hex24\<rparr>"

section \<open>Facts about the registry and the handshake\<close>

lemma membersOf_join:
  "membersOf (join r c reg) r' = (if r' = r then insert c (membersOf reg r) else membersOf reg r')"
  by (simp add: membersOf_def join_def)

lemma membersOf_leave:
  "membersOf (leave r c reg) r' = (if r' = r then membersOf reg r - {c} else membersOf reg r')"
  by (auto simp: membersOf_def leave_def split: option.splits)

lemma membersOf_empty [simp]: "membersOf Map.empty r = {}"
  by (simp add: membersOf_def)

lemma uid_select [simp]: "uid (select_excluding ns u) = uid u"
  by (simp add: select_excluding_def)

lemma on_connection_failure:
  "authenticate deps (handshake sock) = Inl e \<Longrightarrow>
   on_connection deps sock srv =
     (sock, socket_emit sock SOCKET_ERROR_EVENT (Text (socket_error_payload e)) srv)"
  by (simp add: on_connection_def)

lemma on_connection_success:
  "authenticate deps (handshake sock) = Inr u \<Longrightarrow>
   on_connection deps sock srv =
     (sock\<lparr>user := Some u,
            listeners := listeners sock @
              [(JOIN_CHAT_EVENT, JoinChat), (TYPING_EVENT, ParticipantTyping),
               (TYPING_EVENT, ParticipantStoppedTyping), (DISCONNECT_EVENT, OnDisconnect)]\<rparr>,
      srv\<lparr>rooms := join (uid u) (sid sock) (rooms srv),
           sent := sent srv @
             [\<lparr>target = ToSocket (sid sock), recipients = {sid sock},
               event = CONNECTED_EVENT, payload = NoPayload\<rparr>]\<rparr>)"
  by (simp add: on_connection_def Let_def socket_join_def socket_emit_def socket_on_def
      mountJoinChatEvent_def mountParticipantTypingEvent_def
      mountParticipantStoppedTypingEvent_def)

lemma authenticate_resolved:
  "authenticate deps hs = Inr u \<Longrightarrow>
   \<exists>t d found. get_token deps hs = Some t \<and> t \<noteq> [] \<and>
      jwt_verify deps t (ACCESS_TOKEN_SECRET deps) = Inr d \<and>
      User_findById deps (tok_id d) = Some found \<and>
      u = select_excluding [''password'', ''refreshToken''] found"
  by (auto simp: authenticate_def split: option.splits if_splits sum.splits)

subsection \<open>The sample data, evaluated\<close>

lemma sample_auth:
  "authenticate sample_deps (with_token ''tokA'') =
     Inr (select_excluding [''password'', ''refreshToken''] alice)"
  "authenticate sample_deps (with_token ''tokB'') =
     Inr (select_excluding [''password'', ''refreshToken''] bob)"
  "authenticate sample_deps (with_token ''tokC'') =
     Inr (select_excluding [''password'', ''refreshToken''] carol)"
  "authenticate sample_deps (with_token ''tokGone'') =
     Inl (ApiError 401 ''Unauthenticated handshake. User not found.'')"
  "authenticate sample_deps (with_token ''forged'') =
     Inl (JsonWebTokenError (Some ''invalid signature''))"
  "authenticate sample_deps (with_token ''tokSilent'') = Inl (JsonWebTokenError None)"
  "authenticate sample_deps no_credentials =
     Inl (ApiError 401 ''Unauthorized handshake. Token missing.'')"
  by (simp_all add: authenticate_def get_token_def sample_deps_def with_token_def
      no_credentials_def cookie_header_def)

lemma sample_conns:
  "conn_a = \<lparr>sid = 1, handshake = with_token ''tokA'',
     user = Some (select_excluding [''password'', ''refreshToken''] alice),
     listeners = [(JOIN_CHAT_EVENT, JoinChat), (TYPING_EVENT, ParticipantTyping),
       (TYPING_EVENT, ParticipantStoppedTyping), (DISCONNECT_EVENT, OnDisconnect)],
     connected = True\<rparr>"
  "conn_b = \<lparr>sid = 2, handshake = with_token ''tokB'',
     user = Some (select_excluding [''password'', ''refreshToken''] bob),
     listeners = [(JOIN_CHAT_EVENT, JoinChat), (TYPING_EVENT, ParticipantTyping),
       (TYPING_EVENT, ParticipantStoppedTyping), (DISCONNECT_EVENT, OnDisconnect)],
     connected = True\<rparr>"
  by (simp_all add: conn_a_def conn_b_def on_connection_success new_socket_def
      sample_auth)

lemma chat42_server_eq:
  "chat42_server =
     \<lparr>rooms = [''u1'' \<mapsto> {1}, ''u2'' \<mapsto> {2}, ''chat42'' \<mapsto> {1, 2}],
      sent = [\<lparr>target = ToSocket 1, recipients = {1}, event = CONNECTED_EVENT,
               payload = NoPayload\<rparr>,
              \<lparr>target = ToSocket 2, recipients = {2}, event = CONNECTED_EVENT,
               payload = NoPayload\<rparr>]\<rparr>"
  by (simp add: chat42_server_def sample_conns receive_def socket_join_def
      on_connection_success new_socket_def sample_auth empty_server_def join_def membersOf_def
      alice_def bob_def insert_commute)

section \<open>The handshake\<close>

text \<open>
  Claim C1, as stated, has the connection closed after a failed handshake. The handler's
  \<open>catch\<close> block emits the error event and does nothing else: with no credentials at
  all the handshake fails and the socket is still connected afterwards.
\<close>

theorem failed_handshake_stays_open:
  "authenticate sample_deps no_credentials =
     Inl (ApiError 401 ''Unauthorized handshake. Token missing.'')
   \<and> connected (fst (on_connection sample_deps (new_socket 1 no_credentials) empty_server))"
  by (simp add: sample_auth on_connection_failure new_socket_def)

text \<open>
  Claim C1, amended: for every handshake that fails authentication, the connection
  receives one \<open>SOCKET_ERROR\<close> event and is left as it was handed over (still connected,
  no identity attached, no listener registered); the registry is unchanged, so a
  connection that was in no room is in no room afterwards, and every later inbound
  event on it changes nothing.
\<close>

theorem failed_handshake_error_event_only:
  assumes "authenticate deps hs = Inl e"
  shows "on_connection deps (new_socket c hs) srv =
           (new_socket c hs,
            srv\<lparr>sent := sent srv @
              [\<lparr>target = ToSocket c, recipients = {c}, event = SOCKET_ERROR_EVENT,
                payload = Text (socket_error_payload e)\<rparr>]\<rparr>)
       \<and> connected (fst (on_connection deps (new_socket c hs) srv))
       \<and> user (fst (on_connection deps (new_socket c hs) srv)) = None
       \<and> listeners (fst (on_connection deps (new_socket c hs) srv)) = []
       \<and> rooms (snd (on_connection deps (new_socket c hs) srv)) = rooms srv
       \<and> (\<forall>ev arg srv'.
             receive ev arg (fst (on_connection deps (new_socket c hs) srv)) srv' = srv')
       \<and> ((\<forall>r. c \<notin> membersOf (rooms srv) r) \<longrightarrow>
            (\<forall>r. c \<notin> membersOf (rooms (snd (on_connection deps (new_socket c hs) srv))) r))"
proof -
  have h: "authenticate deps (handshake (new_socket c hs)) = Inl e"
    using assms by (simp add: new_socket_def)
  have eq: "on_connection deps (new_socket c hs) srv =
           (new_socket c hs,
            srv\<lparr>sent := sent srv @
              [\<lparr>target = ToSocket c, recipients = {c}, event = SOCKET_ERROR_EVENT,
                payload = Text (socket_error_payload e)\<rparr>]\<rparr>)"
    by (simp add: on_connection_failure [OF h] socket_emit_def) (simp add: new_socket_def)
  show ?thesis
    unfolding eq by (simp add: receive_def) (simp add: new_socket_def)
qed

text \<open>Claim C1, amended, at an instance: a handshake with no credentials.\<close>

theorem failed_handshake_error_event_only_witness:
  "on_connection sample_deps (new_socket 1 no_credentials) empty_server =
     (new_socket 1 no_credentials,
      \<lparr>rooms = Map.empty,
       sent = [\<lparr>target = ToSocket 1, recipients = {1}, event = SOCKET_ERROR_EVENT,
                payload = Text ''Unauthorized handshake. Token missing.''\<rparr>]\<rparr>)
   \<and> receive JOIN_CHAT_EVENT ''chat42''
        (fst (on_connection sample_deps (new_socket 1 no_credentials) empty_server)) empty_server
      = empty_server
   \<and> 1 \<notin> membersOf (rooms (snd (on_connection sample_deps (new_socket 1 no_credentials)
                                   empty_server))) ''chat42''"
proof -
  note t = failed_handshake_error_event_only [OF sample_auth(7), of 1 empty_server]
  have a: "on_connection sample_deps (new_socket 1 no_credentials) empty_server =
     (new_socket 1 no_credentials,
      \<lparr>rooms = Map.empty,
       sent = [\<lparr>target = ToSocket 1, recipients = {1}, event = SOCKET_ERROR_EVENT,
                payload = Text ''Unauthorized handshake. Token missing.''\<rparr>]\<rparr>)"
    using t by (simp add: empty_server_def socket_error_payload_def)
  have b: "receive JOIN_CHAT_EVENT ''chat42''
        (fst (on_connection sample_deps (new_socket 1 no_credentials) empty_server)) empty_server
      = empty_server"
    using t by blast
  have c: "1 \<notin> membersOf (rooms (snd (on_connection sample_deps (new_socket 1 no_credentials)
                                   empty_server))) ''chat42''"
    using t by (simp add: empty_server_def)
  show ?thesis by (rule conjI [OF a conjI [OF b c]])
qed

text \<open>
  Claim C10: for every handshake error, the \<open>SOCKET_ERROR\<close> event emitted to the failing
  connection carries the error's message as its payload, and when the error has no
  message (none, or the empty string) it carries the fixed default text.
\<close>

theorem socket_error_payload_is_message:
  assumes "authenticate deps (handshake sock) = Inl e"
  shows "sent (snd (on_connection deps sock srv)) =
           sent srv @ [\<lparr>target = ToSocket (sid sock), recipients = {sid sock},
                        event = SOCKET_ERROR_EVENT, payload = Text (socket_error_payload e)\<rparr>]
       \<and> (\<forall>m. error_message e = Some m \<and> m \<noteq> [] \<longrightarrow> socket_error_payload e = m)
       \<and> (\<not> truthy (error_message e) \<longrightarrow>
            socket_error_payload e = ''Something went wrong while connecting to the socket.'')"
proof (intro conjI allI impI)
  show "sent (snd (on_connection deps sock srv)) =
           sent srv @ [\<lparr>target = ToSocket (sid sock), recipients = {sid sock},
                        event = SOCKET_ERROR_EVENT, payload = Text (socket_error_payload e)\<rparr>]"
    using assms by (simp add: on_connection_failure socket_emit_def)
next
  fix m assume "error_message e = Some m \<and> m \<noteq> []"
  then show "socket_error_payload e = m" by (simp add: socket_error_payload_def)
next
  assume "\<not> truthy (error_message e)"
  then show "socket_error_payload e = ''Something went wrong while connecting to the socket.''"
    by (cases "error_message e") (simp_all add: socket_error_payload_def)
qed

text \<open>
  Claim C10 at instances: a forged token, and a verifier that throws without a message.
\<close>

theorem socket_error_payload_is_message_witness:
  "sent (snd (on_connection sample_deps (new_socket 7 (with_token ''forged'')) empty_server)) =
     [\<lparr>target = ToSocket 7, recipients = {7}, event = SOCKET_ERROR_EVENT,
       payload = Text ''invalid signature''\<rparr>]
   \<and> sent (snd (on_connection sample_deps (new_socket 7 (with_token ''tokSilent'')) empty_server)) =
     [\<lparr>target = ToSocket 7, recipients = {7}, event = SOCKET_ERROR_EVENT,
       payload = Text ''Something went wrong while connecting to the socket.''\<rparr>]"
proof -
  have a: "authenticate sample_deps (handshake (new_socket 7 (with_token ''forged''))) =
             Inl (JsonWebTokenError (Some ''invalid signature''))"
    by (simp add: new_socket_def sample_auth)
  have b: "authenticate sample_deps (handshake (new_socket 7 (with_token ''tokSilent''))) =
             Inl (JsonWebTokenError None)"
    by (simp add: new_socket_def sample_auth)
  show ?thesis
    using socket_error_payload_is_message [OF a, of empty_server]
          socket_error_payload_is_message [OF b, of empty_server]
    by (simp add: new_socket_def empty_server_def)
qed

text \<open>
  Claim C5: for every handshake that authenticates successfully, the resolved identity
  is the stored user without its \<open>password\<close> and \<open>refreshToken\<close> fields, the
  connection is joined to the room keyed by the identity's own id, and a \<open>CONNECTED\<close>
  event is emitted to that connection.
\<close>

theorem successful_handshake_joins_identity_room:
  assumes "authenticate deps (handshake sock) = Inr u"
  shows "doc_fields u ''password'' = None \<and> doc_fields u ''refreshToken'' = None
       \<and> (\<exists>t d found. get_token deps (handshake sock) = Some t
             \<and> jwt_verify deps t (ACCESS_TOKEN_SECRET deps) = Inr d
             \<and> User_findById deps (tok_id d) = Some found
             \<and> uid u = uid found
             \<and> (\<forall>k. k \<noteq> ''password'' \<and> k \<noteq> ''refreshToken'' \<longrightarrow>
                    doc_fields u k = doc_fields found k))
       \<and> user (fst (on_connection deps sock srv)) = Some u
       \<and> rooms (snd (on_connection deps sock srv)) = join (uid u) (sid sock) (rooms srv)
       \<and> sid sock \<in> membersOf (rooms (snd (on_connection deps sock srv))) (uid u)
       \<and> sent (snd (on_connection deps sock srv)) =
           sent srv @ [\<lparr>target = ToSocket (sid sock), recipients = {sid sock},
                        event = CONNECTED_EVENT, payload = NoPayload\<rparr>]"
proof -
  from authenticate_resolved [OF assms] obtain t d found where
    r: "get_token deps (handshake sock) = Some t"
       "jwt_verify deps t (ACCESS_TOKEN_SECRET deps) = Inr d"
       "User_findById deps (tok_id d) = Some found"
       "u = select_excluding [''password'', ''refreshToken''] found"
    by blast
  have secrets: "doc_fields u ''password'' = None \<and> doc_fields u ''refreshToken'' = None"
    using r(4) by (simp add: select_excluding_def)
  have others: "\<forall>k. k \<noteq> ''password'' \<and> k \<noteq> ''refreshToken'' \<longrightarrow>
                    doc_fields u k = doc_fields found k"
    using r(4) by (simp add: select_excluding_def)
  have same_id: "uid u = uid found"
    using r(4) by simp
  have run: "on_connection deps sock srv =
     (sock\<lparr>user := Some u,
            listeners := listeners sock @
              [(JOIN_CHAT_EVENT, JoinChat), (TYPING_EVENT, ParticipantTyping),
               (TYPING_EVENT, ParticipantStoppedTyping), (DISCONNECT_EVENT, OnDisconnect)]\<rparr>,
      srv\<lparr>rooms := join (uid u) (sid sock) (rooms srv),
           sent := sent srv @
             [\<lparr>target = ToSocket (sid sock), recipients = {sid sock},
               event = CONNECTED_EVENT, payload = NoPayload\<rparr>]\<rparr>)"
    by (rule on_connection_success [OF assms])
  have resolved: "\<exists>t d found. get_token deps (handshake sock) = Some t
             \<and> jwt_verify deps t (ACCESS_TOKEN_SECRET deps) = Inr d
             \<and> User_findById deps (tok_id d) = Some found
             \<and> uid u = uid found
             \<and> (\<forall>k. k \<noteq> ''password'' \<and> k \<noteq> ''refreshToken'' \<longrightarrow>
                    doc_fields u k = doc_fields found k)"
    using r(1,2,3) same_id others by blast
  show ?thesis
    using secrets resolved by (simp add: run membersOf_join)
qed

text \<open>
  Claim C5 at an instance: the handshake of \<open>u1\<close> on connection 1; the stored
  document does hold a password.
\<close>

theorem successful_handshake_joins_identity_room_witness:
  "doc_fields (select_excluding [''password'', ''refreshToken''] alice) ''password'' = None
   \<and> doc_fields (select_excluding [''password'', ''refreshToken''] alice) ''refreshToken'' = None
   \<and> doc_fields alice ''password'' = Some ''hash1''
   \<and> 1 \<in> membersOf (rooms (snd (on_connection sample_deps (new_socket 1 (with_token ''tokA''))
                                  empty_server))) ''u1''
   \<and> sent (snd (on_connection sample_deps (new_socket 1 (with_token ''tokA'')) empty_server)) =
       [\<lparr>target = ToSocket 1, recipients = {1}, event = CONNECTED_EVENT, payload = NoPayload\<rparr>]"
proof -
  have a: "authenticate sample_deps (handshake (new_socket 1 (with_token ''tokA''))) =
             Inr (select_excluding [''password'', ''refreshToken''] alice)"
    by (simp add: new_socket_def sample_auth)
  note t = successful_handshake_joins_identity_room [OF a, of empty_server]
  have p: "doc_fields (select_excluding [''password'', ''refreshToken''] alice) ''password'' = None"
    using t by blast
  have q: "doc_fields (select_excluding [''password'', ''refreshToken''] alice) ''refreshToken'' = None"
    using t by blast
  have o: "doc_fields alice ''password'' = Some ''hash1''"
    by (simp add: alice_def)
  have m0: "sid (new_socket 1 (with_token ''tokA''))
      \<in> membersOf (rooms (snd (on_connection sample_deps (new_socket 1 (with_token ''tokA''))
                                  empty_server)))
           (uid (select_excluding [''password'', ''refreshToken''] alice))"
    using t by blast
  have m: "1 \<in> membersOf (rooms (snd (on_connection sample_deps (new_socket 1 (with_token ''tokA''))
                                  empty_server))) ''u1''"
    using m0 by (simp add: new_socket_def alice_def)
  have s0: "sent (snd (on_connection sample_deps (new_socket 1 (with_token ''tokA'')) empty_server)) =
       sent empty_server @
       [\<lparr>target = ToSocket (sid (new_socket 1 (with_token ''tokA''))),
         recipients = {sid (new_socket 1 (with_token ''tokA''))},
         event = CONNECTED_EVENT, payload = NoPayload\<rparr>]"
    using t by blast
  have s: "sent (snd (on_connection sample_deps (new_socket 1 (with_token ''tokA'')) empty_server)) =
       [\<lparr>target = ToSocket 1, recipients = {1}, event = CONNECTED_EVENT, payload = NoPayload\<rparr>]"
    using s0 by (simp add: new_socket_def empty_server_def)
  show ?thesis using p q o m s by blast
qed

text \<open>
  Claim C6: for every handshake context, the token is the cookie-carried token when
  there is one and the explicit auth-token field otherwise; with no token the handshake
  fails with \<open>Unauthorized\<close>, when verification fails it fails with \<open>InvalidToken\<close>,
  and when no identity matches the verified token it fails with \<open>IdentityNotFound\<close>.
  The last conjunct compares the handler with the authenticator of section 4.1.
\<close>

theorem handshake_token_and_failures:
  "get_token deps hs =
     (if truthy (cookie_parse deps (cookie_header hs) ''accessToken'')
      then cookie_parse deps (cookie_header hs) ''accessToken''
      else auth_token hs)
   \<and> (\<not> truthy (get_token deps hs) \<longrightarrow>
        authenticate deps hs = Inl (ApiError 401 ''Unauthorized handshake. Token missing.''))
   \<and> (\<forall>t m. get_token deps hs = Some t \<and> t \<noteq> []
          \<and> jwt_verify deps t (ACCESS_TOKEN_SECRET deps) = Inl m \<longrightarrow>
        authenticate deps hs = Inl (JsonWebTokenError m))
   \<and> (\<forall>t d. get_token deps hs = Some t \<and> t \<noteq> []
          \<and> jwt_verify deps t (ACCESS_TOKEN_SECRET deps) = Inr d
          \<and> User_findById deps (tok_id d) = None \<longrightarrow>
        authenticate deps hs = Inl (ApiError 401 ''Unauthenticated handshake. User not found.''))
   \<and> map_sum failure_kind id (authenticate deps hs) =
       map_sum Some id (authenticate_spec deps hs)"
proof (intro conjI allI impI)
  show "get_token deps hs =
     (if truthy (cookie_parse deps (cookie_header hs) ''accessToken'')
      then cookie_parse deps (cookie_header hs) ''accessToken''
      else auth_token hs)"
    by (simp add: get_token_def Let_def)
next
  assume "\<not> truthy (get_token deps hs)"
  then show "authenticate deps hs = Inl (ApiError 401 ''Unauthorized handshake. Token missing.'')"
    by (cases "get_token deps hs") (simp_all add: authenticate_def)
next
  fix t m
  assume "get_token deps hs = Some t \<and> t \<noteq> []
          \<and> jwt_verify deps t (ACCESS_TOKEN_SECRET deps) = Inl m"
  then show "authenticate deps hs = Inl (JsonWebTokenError m)"
    by (simp add: authenticate_def)
next
  fix t d
  assume "get_token deps hs = Some t \<and> t \<noteq> []
          \<and> jwt_verify deps t (ACCESS_TOKEN_SECRET deps) = Inr d
          \<and> User_findById deps (tok_id d) = None"
  then show "authenticate deps hs =
      Inl (ApiError 401 ''Unauthenticated handshake. User not found.'')"
    by (simp add: authenticate_def)
next
  show "map_sum failure_kind id (authenticate deps hs) =
       map_sum Some id (authenticate_spec deps hs)"
    by (auto simp: authenticate_def authenticate_spec_def get_token_def Let_def
        select_excluding_def fun_eq_iff split: option.splits sum.splits)
qed

text \<open>
  Claim C6 at instances: both credentials, the fallback, and one handshake for each
  kind of failure.
\<close>

theorem handshake_token_and_failures_witness:
  "get_token sample_deps both_credentials = Some ''tokA''
   \<and> get_token sample_deps (with_token ''tokB'') = Some ''tokB''
   \<and> authenticate sample_deps no_credentials =
       Inl (ApiError 401 ''Unauthorized handshake. Token missing.'')
   \<and> authenticate sample_deps (with_token ''forged'') =
       Inl (JsonWebTokenError (Some ''invalid signature''))
   \<and> authenticate sample_deps (with_token ''tokGone'') =
       Inl (ApiError 401 ''Unauthenticated handshake. User not found.'')
   \<and> authenticate_spec sample_deps no_credentials = Inl Unauthorized
   \<and> authenticate_spec sample_deps (with_token ''forged'') = Inl InvalidToken
   \<and> authenticate_spec sample_deps (with_token ''tokGone'') = Inl IdentityNotFound"
proof -
  note both = handshake_token_and_failures [of sample_deps both_credentials]
  note fallback = handshake_token_and_failures [of sample_deps "with_token ''tokB''"]
  note none = handshake_token_and_failures [of sample_deps no_credentials]
  note forged = handshake_token_and_failures [of sample_deps "with_token ''forged''"]
  note gone = handshake_token_and_failures [of sample_deps "with_token ''tokGone''"]
  have a: "get_token sample_deps both_credentials = Some ''tokA''"
    using both by (simp add: sample_deps_def both_credentials_def cookie_header_def)
  have b: "get_token sample_deps (with_token ''tokB'') = Some ''tokB''"
    using fallback by (simp add: sample_deps_def with_token_def cookie_header_def)
  have tn: "get_token sample_deps no_credentials = None"
    using none by (simp add: sample_deps_def no_credentials_def cookie_header_def)
  have tf: "get_token sample_deps (with_token ''forged'') = Some ''forged''"
    using forged by (simp add: sample_deps_def with_token_def cookie_header_def)
  have tg: "get_token sample_deps (with_token ''tokGone'') = Some ''tokGone''"
    using gone by (simp add: sample_deps_def with_token_def cookie_header_def)
  have c: "authenticate sample_deps no_credentials =
       Inl (ApiError 401 ''Unauthorized handshake. Token missing.'')"
    using none tn by simp
  have vf: "jwt_verify sample_deps ''forged'' (ACCESS_TOKEN_SECRET sample_deps) =
       Inl (Some ''invalid signature'')"
    by (simp add: sample_deps_def)
  have d: "authenticate sample_deps (with_token ''forged'') =
       Inl (JsonWebTokenError (Some ''invalid signature''))"
    using forged tf vf by blast
  have vg: "jwt_verify sample_deps ''tokGone'' (ACCESS_TOKEN_SECRET sample_deps) =
       Inr \<lparr>tok_id = ''u9''\<rparr>"
    by (simp add: sample_deps_def)
  have fg: "User_findById sample_deps (tok_id \<lparr>tok_id = ''u9''\<rparr>) = None"
    by (simp add: sample_deps_def)
  have e: "authenticate sample_deps (with_token ''tokGone'') =
       Inl (ApiError 401 ''Unauthenticated handshake. User not found.'')"
    using gone tg vg fg by blast
  have f: "authenticate_spec sample_deps no_credentials = Inl Unauthorized"
    using none c by (cases "authenticate_spec sample_deps no_credentials") simp_all
  have g: "authenticate_spec sample_deps (with_token ''forged'') = Inl InvalidToken"
    using forged d by (cases "authenticate_spec sample_deps (with_token ''forged'')") simp_all
  have h: "authenticate_spec sample_deps (with_token ''tokGone'') = Inl IdentityNotFound"
    using gone e by (cases "authenticate_spec sample_deps (with_token ''tokGone'')") simp_all
  show ?thesis using a b c d e f g h by blast
qed

section \<open>Inbound events\<close>

lemma receive_after_handshake:
  assumes "authenticate deps hs = Inr u"
  shows "receive JOIN_CHAT_EVENT r (fst (on_connection deps (new_socket c hs) srv0)) srv =
           srv\<lparr>rooms := join r c (rooms srv)\<rparr>"
    and "receive STOP_TYPING_EVENT r (fst (on_connection deps (new_socket c hs) srv0)) srv = srv"
    and "receive DISCONNECT_EVENT r (fst (on_connection deps (new_socket c hs) srv0)) srv = srv"
    and "sent (receive TYPING_EVENT r (fst (on_connection deps (new_socket c hs) srv0)) srv) =
           sent srv @
             [\<lparr>target = ToRoomExceptSender r c, recipients = membersOf (rooms srv) r - {c},
               event = TYPING_EVENT, payload = Text r\<rparr>,
              \<lparr>target = ToRoomExceptSender r c, recipients = membersOf (rooms srv) r - {c},
               event = TYPING_EVENT, payload = Text r\<rparr>]"
proof -
  have h: "authenticate deps (handshake (new_socket c hs)) = Inr u"
    using assms by (simp add: new_socket_def)
  show "receive JOIN_CHAT_EVENT r (fst (on_connection deps (new_socket c hs) srv0)) srv =
           srv\<lparr>rooms := join r c (rooms srv)\<rparr>"
    unfolding on_connection_success [OF h]
    by (simp add: receive_def socket_join_def new_socket_def)
  show "receive STOP_TYPING_EVENT r (fst (on_connection deps (new_socket c hs) srv0)) srv = srv"
    unfolding on_connection_success [OF h]
    by (simp add: receive_def new_socket_def)
  show "receive DISCONNECT_EVENT r (fst (on_connection deps (new_socket c hs) srv0)) srv = srv"
    unfolding on_connection_success [OF h]
    by (simp add: receive_def new_socket_def)
  show "sent (receive TYPING_EVENT r (fst (on_connection deps (new_socket c hs) srv0)) srv) =
           sent srv @
             [\<lparr>target = ToRoomExceptSender r c, recipients = membersOf (rooms srv) r - {c},
               event = TYPING_EVENT, payload = Text r\<rparr>,
              \<lparr>target = ToRoomExceptSender r c, recipients = membersOf (rooms srv) r - {c},
               event = TYPING_EVENT, payload = Text r\<rparr>]"
    unfolding on_connection_success [OF h]
    by (simp add: receive_def socket_in_emit_def new_socket_def)
qed

lemma conn_a_unfold:
  "conn_a = fst (on_connection sample_deps (new_socket 1 (with_token ''tokA'')) empty_server)"
  by (simp add: conn_a_def)

lemma chat42_members:
  "membersOf (rooms chat42_server) ''chat42'' = {1, 2}"
  "membersOf (rooms chat42_server) ''u1'' = {1}"
  "membersOf (rooms chat42_server) ''u2'' = {2}"
  by (simp_all add: chat42_server_eq membersOf_def)

text \<open>
  Claim C2 asks that a typing-stop event be re-broadcast as a stop-typing event to the
  other members of the room. With connections 1 and 2 both in \<open>chat42\<close>, a
  \<open>STOP_TYPING_EVENT\<close> from connection 1 emits nothing, and a \<open>TYPING_EVENT\<close> from it
  is re-broadcast to connection 2 twice: \<open>mountParticipantStoppedTypingEvent\<close> listens
  to \<open>TYPING_EVENT\<close> and emits \<open>TYPING_EVENT\<close>.
\<close>

theorem typing_stop_is_not_rebroadcast:
  "membersOf (rooms chat42_server) ''chat42'' = {1, 2}
   \<and> receive STOP_TYPING_EVENT ''chat42'' conn_a chat42_server = chat42_server
   \<and> sent (receive TYPING_EVENT ''chat42'' conn_a chat42_server) =
       sent chat42_server @
         [\<lparr>target = ToRoomExceptSender ''chat42'' 1, recipients = {2},
           event = TYPING_EVENT, payload = Text ''chat42''\<rparr>,
          \<lparr>target = ToRoomExceptSender ''chat42'' 1, recipients = {2},
           event = TYPING_EVENT, payload = Text ''chat42''\<rparr>]"
  by (simp add: conn_a_unfold receive_after_handshake [OF sample_auth(1)] chat42_members)

lemma membersOf_leave_all: "membersOf (leave_all c reg) r = membersOf reg r - {c}"
  by (auto simp: membersOf_def leave_all_def split: option.splits)

lemma run_listener_connected:
  "run_listener l arg (sock\<lparr>connected := b\<rparr>) srv = run_listener l arg sock srv"
  by (cases l) (simp_all add: socket_join_def socket_in_emit_def split: option.splits)

lemma dispatch_connected:
  "dispatch ls ev arg (sock\<lparr>connected := b\<rparr>) srv = dispatch ls ev arg sock srv"
  by (induction ls arbitrary: srv) (auto simp: run_listener_connected)

lemma receive_connected:
  "receive ev arg (sock\<lparr>connected := b\<rparr>) srv = receive ev arg sock srv"
  by (simp add: receive_def dispatch_connected)

text \<open>
  Claim C3: for every connection that disconnects from the Active state, all room
  memberships it holds, its identity room and every room joined via join-chat, are
  removed from the registry in one step: afterwards the connection is in no room, the
  other members of every room are who they were, and there is no state in between in
  which it is in some of its former rooms and not in others. The removal is the
  transport's cleanup; the listener the sources register (lines 71 to 77) runs after
  it, and its \<open>socket.leave(socket.user._id)\<close> changes nothing.
\<close>

theorem disconnect_removes_every_membership:
  assumes "authenticate deps hs = Inr u"
  shows "snd (disconnect reason (fst (on_connection deps (new_socket c hs) srv0)) srv) =
           srv\<lparr>rooms := leave_all c (rooms srv)\<rparr>
       \<and> (\<forall>r. membersOf
                 (rooms (snd (disconnect reason
                    (fst (on_connection deps (new_socket c hs) srv0)) srv))) r
               = membersOf (rooms srv) r - {c})
       \<and> (\<forall>r. c \<notin> membersOf
                 (rooms (snd (disconnect reason
                    (fst (on_connection deps (new_socket c hs) srv0)) srv))) r)
       \<and> sent (snd (disconnect reason (fst (on_connection deps (new_socket c hs) srv0)) srv))
           = sent srv
       \<and> \<not> connected (fst (disconnect reason
                              (fst (on_connection deps (new_socket c hs) srv0)) srv))"
proof -
  have h: "authenticate deps (handshake (new_socket c hs)) = Inr u"
    using assms by (simp add: new_socket_def)
  have id: "sid (fst (on_connection deps (new_socket c hs) srv0)) = c"
    unfolding on_connection_success [OF h] by (simp add: new_socket_def)
  have run: "snd (disconnect reason (fst (on_connection deps (new_socket c hs) srv0)) srv) =
           srv\<lparr>rooms := leave_all c (rooms srv)\<rparr>"
    by (simp add: disconnect_def receive_connected receive_after_handshake(3) [OF assms] id)
  show ?thesis
    unfolding run by (simp add: membersOf_leave_all) (simp add: disconnect_def)
qed

text \<open>
  Claim C3 at an instance: connection 1 of the running example, a member of \<open>u1\<close> and
  \<open>chat42\<close>, disconnects.
\<close>

theorem disconnect_removes_every_membership_witness:
  "1 \<in> membersOf (rooms chat42_server) ''u1''
   \<and> 1 \<in> membersOf (rooms chat42_server) ''chat42''
   \<and> membersOf (rooms (snd (disconnect [] conn_a chat42_server))) ''u1'' = {}
   \<and> membersOf (rooms (snd (disconnect [] conn_a chat42_server))) ''chat42'' = {2}
   \<and> membersOf (rooms (snd (disconnect [] conn_a chat42_server))) ''u2'' = {2}
   \<and> sent (snd (disconnect [] conn_a chat42_server)) = sent chat42_server"
proof -
  note t = disconnect_removes_every_membership
             [OF sample_auth(1), of "[]" 1 empty_server chat42_server, folded conn_a_unfold]
  have a: "1 \<in> membersOf (rooms chat42_server) ''u1''"
    by (simp add: chat42_members)
  have b: "1 \<in> membersOf (rooms chat42_server) ''chat42''"
    by (simp add: chat42_members)
  have m: "\<And>r. membersOf (rooms (snd (disconnect [] conn_a chat42_server))) r
              = membersOf (rooms chat42_server) r - {1}"
    using t [THEN conjunct2, THEN conjunct1] by simp
  have c: "membersOf (rooms (snd (disconnect [] conn_a chat42_server))) ''u1'' = {}"
    by (simp add: m chat42_members)
  have d: "membersOf (rooms (snd (disconnect [] conn_a chat42_server))) ''chat42'' = {2}"
    by (simp add: m chat42_members)
  have e: "membersOf (rooms (snd (disconnect [] conn_a chat42_server))) ''u2'' = {2}"
    by (simp add: m chat42_members)
  have f: "sent (snd (disconnect [] conn_a chat42_server)) = sent chat42_server"
    using t [THEN conjunct2, THEN conjunct2, THEN conjunct2, THEN conjunct1] .
  show ?thesis
    by (rule conjI [OF a conjI [OF b conjI [OF c conjI [OF d conjI [OF e f]]]]])
qed

section \<open>The registry\<close>

lemma join_idem: "join r c (join r c reg) = join r c reg"
  by (simp add: join_def membersOf_def)

text \<open>
  Claim C7: for every room and every connection, joining the same room twice yields the
  same registry, hence the same member sets, as joining once; joining a room already
  joined changes nothing; and the join-chat listener run twice leaves the server as
  running it once does.
\<close>

theorem join_twice_is_join_once:
  "join r c (join r c reg) = join r c reg
   \<and> (\<forall>r'. membersOf (join r c (join r c reg)) r' = membersOf (join r c reg) r')
   \<and> (c \<in> membersOf reg r \<longrightarrow> join r c reg = reg)
   \<and> run_listener JoinChat r sock (run_listener JoinChat r sock srv) =
       run_listener JoinChat r sock srv"
proof -
  have twice: "join r c (join r c reg) = join r c reg"
    by (rule join_idem)
  have noop: "c \<in> membersOf reg r \<longrightarrow> join r c reg = reg"
    by (auto simp: join_def membersOf_def insert_absorb split: option.splits)
  have handler: "run_listener JoinChat r sock (run_listener JoinChat r sock srv) =
       run_listener JoinChat r sock srv"
    by (simp add: socket_join_def join_idem)
  show ?thesis using twice noop handler by simp
qed

text \<open>Claim C7 at an instance: connection 1 joins \<open>chat42\<close> again.\<close>

theorem join_twice_is_join_once_witness:
  "membersOf (join ''chat42'' 1 (join ''chat42'' 1 Map.empty)) ''chat42'' = {1}
   \<and> join ''chat42'' 1 (rooms chat42_server) = rooms chat42_server
   \<and> rooms (receive JOIN_CHAT_EVENT ''chat42'' conn_a
              (receive JOIN_CHAT_EVENT ''chat42'' conn_a chat42_server)) = rooms chat42_server"
proof -
  note t = join_twice_is_join_once [of "''chat42''" 1 Map.empty conn_a chat42_server]
  note t2 = join_twice_is_join_once [of "''chat42''" 1 "rooms chat42_server" conn_a chat42_server]
  have a: "membersOf (join ''chat42'' 1 (join ''chat42'' 1 Map.empty)) ''chat42'' = {1}"
    using t by (simp add: membersOf_join)
  have m: "1 \<in> membersOf (rooms chat42_server) ''chat42''"
    by (simp add: chat42_members)
  have b: "join ''chat42'' 1 (rooms chat42_server) = rooms chat42_server"
    using t2 m by blast
  have "rooms (receive JOIN_CHAT_EVENT ''chat42'' conn_a
              (receive JOIN_CHAT_EVENT ''chat42'' conn_a chat42_server)) =
        join ''chat42'' 1 (join ''chat42'' 1 (rooms chat42_server))"
    unfolding conn_a_unfold receive_after_handshake(1) [OF sample_auth(1)] by simp
  also have "\<dots> = rooms chat42_server"
    by (simp only: b)
  finally have c: "rooms (receive JOIN_CHAT_EVENT ''chat42'' conn_a
              (receive JOIN_CHAT_EVENT ''chat42'' conn_a chat42_server)) = rooms chat42_server" .
  show ?thesis by (rule conjI [OF a conjI [OF b c]])
qed

text \<open>
  Claim C8: for every room, when a leave empties the room's member set the room's entry
  is removed from the registry and \<open>membersOf\<close> returns the empty set; and a registry
  that holds no entry with an empty member set holds none after a leave or a join, so
  abandoned rooms do not accumulate.
\<close>

theorem leave_prunes_emptied_room:
  "(membersOf reg r - {c} = {} \<longrightarrow>
      leave r c reg r = None \<and> r \<notin> dom (leave r c reg) \<and> membersOf (leave r c reg) r = {})
   \<and> ((\<forall>x. reg x \<noteq> Some {}) \<longrightarrow>
        (\<forall>x. leave r c reg x \<noteq> Some {}) \<and> (\<forall>x. join r c reg x \<noteq> Some {}))"
proof (intro conjI impI)
  assume e: "membersOf reg r - {c} = {}"
  show "leave r c reg r = None"
    using e by (auto simp: leave_def membersOf_def split: option.splits)
  then show "r \<notin> dom (leave r c reg)" by (simp add: domIff)
  show "membersOf (leave r c reg) r = {}"
    using e by (simp add: membersOf_leave)
next
  assume inv: "\<forall>x. reg x \<noteq> Some {}"
  show "\<forall>x. leave r c reg x \<noteq> Some {}"
    using inv by (auto simp: leave_def split: option.splits if_splits)
  show "\<forall>x. join r c reg x \<noteq> Some {}"
    using inv by (auto simp: join_def)
qed

text \<open>
  Claim C8 at an instance: connection 1 is the only member of \<open>u1\<close> and one of two
  members of \<open>chat42\<close>.
\<close>

theorem leave_prunes_emptied_room_witness:
  "leave ''u1'' 1 (rooms chat42_server) ''u1'' = None
   \<and> membersOf (leave ''u1'' 1 (rooms chat42_server)) ''u1'' = {}
   \<and> leave ''chat42'' 1 (rooms chat42_server) ''chat42'' = Some {2}"
proof -
  note t = leave_prunes_emptied_room [of "rooms chat42_server" "''u1''" 1]
  have e: "membersOf (rooms chat42_server) ''u1'' - {1} = {}"
    by (simp add: chat42_members)
  have a: "leave ''u1'' 1 (rooms chat42_server) ''u1'' = None"
    using t e by blast
  have b: "membersOf (leave ''u1'' 1 (rooms chat42_server)) ''u1'' = {}"
    using t e by blast
  have c: "leave ''chat42'' 1 (rooms chat42_server) ''chat42'' = Some {2}"
    by (simp add: chat42_server_eq leave_def)
  show ?thesis by (rule conjI [OF a conjI [OF b c]])
qed

section \<open>The message controller's events\<close>

lemma sample_ids_valid:
  "is_hex24 id_u1" "is_hex24 id_u2" "is_hex24 id_u3" "is_hex24 id_chat" "is_hex24 id_m1"
  "is_hex24 id_m2" "\<not> is_hex24 ''chat42''"
  by (simp_all add: is_hex24_def id_u1_def id_u2_def id_u3_def id_chat_def id_m1_def id_m2_def)

lemma sample_ids_distinct:
  "id_u1 \<noteq> id_u2" "id_u2 \<noteq> id_u1" "id_u1 \<noteq> id_u3" "id_u3 \<noteq> id_u1" "id_u2 \<noteq> id_u3"
  "id_u3 \<noteq> id_u2" "id_m1 \<noteq> id_m2" "id_m2 \<noteq> id_m1" "id_chat \<noteq> ''chat42''"
  "''chat42'' \<noteq> id_chat"
  by (simp_all add: id_u1_def id_u2_def id_u3_def id_chat_def id_m1_def id_m2_def)

lemma sample_world_simps:
  "chats sample_world id_chat = Some \<lparr>participants = [id_u1, id_u2], lastMessage = Some id_m1\<rparr>"
  "chats sample_world ''chat42'' = None"
  "messages sample_world = [sample_message]"
  "sent (io sample_world) = []"
  "membersOf (rooms (io sample_world)) id_u2 = {2}"
  by (simp_all add: sample_world_def membersOf_def sample_ids_distinct)

lemma as_written_simps:
  "''ChatEventEnum'' \<notin> set (bound as_written)"
  "''getStaticFilePath'' \<notin> set (bound as_written)"
  "''ApiResponse'' \<notin> set (bound as_written)"
  "valid_id as_written = is_hex24"
  by (simp_all add: as_written_def message_controller_imports_def)

lemma forEach_participant_unresolved:
  "''ChatEventEnum'' \<notin> set (bound env) \<Longrightarrow>
   snd (forEach_participant env me ev pl ps srv) = srv"
  by (induction ps arbitrary: srv) simp_all

lemma forEach_participant_unresolved_result:
  assumes "''ChatEventEnum'' \<notin> set (bound env)"
    and "forEach_participant env me ev pl ps srv = (x, srv')"
  shows "srv' = srv"
  using forEach_participant_unresolved [OF assms(1), of me ev pl ps srv] assms(2) by simp

text \<open>
  With the imports the module has, \<open>sendMessage\<close> emits nothing, whatever the request:
  the first participant other than the sender makes the loop throw.
\<close>

lemma sendMessage_as_written_never_emits:
  "io (snd (sendMessage as_written new_id req w)) = io w"
  by (auto simp: sendMessage_def Let_def split: option.splits sum.splits prod.splits
      dest: forEach_participant_unresolved_result [OF as_written_simps(1)])

text \<open>
  Claim C4 asks that the \<open>MESSAGE_RECEIVED\<close> event reach every participant of the chat
  except the sender once a send has committed. User \<open>id_u1\<close> sends \<open>hi\<close> to chat
  \<open>id_chat\<close>, whose other participant \<open>id_u2\<close> has connection 2 in its identity room:
  the message is stored, then line 142 evaluates \<open>ChatEventEnum\<close>, which the module
  does not import, and the request ends in a \<open>ReferenceError\<close> with nothing emitted.
\<close>

theorem sendMessage_throws_before_emitting:
  "fst (sendMessage as_written id_m2 hi_request sample_world) =
     Inl (ReferenceError ''ChatEventEnum'')
   \<and> messages (snd (sendMessage as_written id_m2 hi_request sample_world)) =
       [sample_message,
        \<lparr>message_id = id_m2, sender = id_u1, content = ''hi'', chat = id_chat,
         attachments = []\<rparr>]
   \<and> membersOf (rooms (io sample_world)) id_u2 = {2}
   \<and> sent (io (snd (sendMessage as_written id_m2 hi_request sample_world))) = []"
  by (simp add: sendMessage_def hi_request_def sample_world_simps Let_def as_written_simps
      sample_ids_valid sample_ids_distinct)




end
